theory Spec2Isabelle
  imports Main
begin

section \<open>Python values used by the client\<close>

text \<open>
  A Python \<open>str\<close> is a sequence of Unicode code points, modelled as a list of naturals.
  Literals of the source are written \<open>str ''...''\<close>; the few characters outside ASCII
  that the source uses are named constants below.
\<close>

type_synonym pystr = "nat list"
type_synonym bytes = "nat list"

abbreviation str :: "string \<Rightarrow> pystr" where
  "str cs \<equiv> map of_char cs"

definition CHECK_MARK :: pystr where "CHECK_MARK = [0x2705]"
definition EM_DASH :: pystr where "EM_DASH = [0x2014]"
definition MAGNIFIER :: pystr where "MAGNIFIER = [0x1F50D]"
definition PAGE :: pystr where "PAGE = [0x1F4C4]"

subsection \<open>\<open>str.strip\<close> and \<open>str.rstrip\<close>\<close>

text \<open>The code points for which Python's \<open>str.isspace\<close> holds.\<close>

definition isspace :: "nat \<Rightarrow> bool" where
  "isspace c =
     ((0x09 \<le> c \<and> c \<le> 0x0D) \<or> (0x1C \<le> c \<and> c \<le> 0x20) \<or> c = 0x85 \<or> c = 0xA0
      \<or> c = 0x1680 \<or> (0x2000 \<le> c \<and> c \<le> 0x200A) \<or> c = 0x2028 \<or> c = 0x2029
      \<or> c = 0x202F \<or> c = 0x205F \<or> c = 0x3000)"

text \<open>\<open>s.rstrip(chars)\<close> and \<open>s.lstrip(chars)\<close> for a predicate on code points.\<close>

definition rstrip_where :: "(nat \<Rightarrow> bool) \<Rightarrow> pystr \<Rightarrow> pystr" where
  "rstrip_where p s = rev (dropWhile p (rev s))"

definition lstrip_where :: "(nat \<Rightarrow> bool) \<Rightarrow> pystr \<Rightarrow> pystr" where
  "lstrip_where p s = dropWhile p s"

text \<open>\<open>s.strip()\<close>: whitespace removed at both ends.\<close>

definition strip :: "pystr \<Rightarrow> pystr" where
  "strip s = rstrip_where isspace (lstrip_where isspace s)"

text \<open>\<open>s.rstrip("/")\<close>: every trailing slash removed.\<close>

definition rstrip_slash :: "pystr \<Rightarrow> pystr" where
  "rstrip_slash s = rstrip_where (\<lambda>c. c = 0x2F) s"

subsection \<open>Decimal and hexadecimal digits\<close>

fun digits :: "nat \<Rightarrow> pystr" where
  "digits n = (if n < 10 then [48 + n] else digits (n div 10) @ [48 + n mod 10])"

declare digits.simps [simp del]

text \<open>\<open>str(i)\<close> for a Python \<open>int\<close>.\<close>

definition str_int :: "int \<Rightarrow> pystr" where
  "str_int i = (if i < 0 then 0x2D # digits (nat (- i)) else digits (nat i))"

definition hexdigit :: "nat \<Rightarrow> nat" where
  "hexdigit d = (if d < 10 then 48 + d else 87 + d)"

text \<open>The \<open>k\<close> lowest hexadecimal digits of \<open>n\<close>, most significant first.\<close>

fun hex :: "nat \<Rightarrow> nat \<Rightarrow> pystr" where
  "hex 0 n = []"
| "hex (Suc k) n = hex k (n div 16) @ [hexdigit (n mod 16)]"

subsection \<open>JSON values as Python objects\<close>

text \<open>
  What \<open>resp.json()\<close> can return: \<open>None\<close>, \<open>bool\<close>, \<open>int\<close>, \<open>float\<close>, \<open>str\<close>,
  \<open>list\<close> and \<open>dict\<close>. A float is carried as its \<open>repr\<close> text (which identifies it);
  a dict as the list of its items in insertion order, with distinct keys.
\<close>

datatype json =
    JNone
  | JBool bool
  | JInt int
  | JFloat pystr
  | JStr pystr
  | JList "json list"
  | JDict "(pystr \<times> json) list"

text \<open>
  Exceptions. \<open>Exn cls msg\<close> is an exception raised inside a library call, with its class
  name and \<open>str(e)\<close>. \<open>AttributeError\<close>, \<open>TypeError\<close> and \<open>KeyError\<close> are the ones
  the interpreter raises in the client's own statements; nothing in the client catches
  them, so their texts are not needed.
\<close>

datatype exn = Exn string pystr | AttributeError | TypeError | KeyError

datatype 'a outcome = Return 'a | Raise exn

text \<open>\<open>d.get(key, default)\<close> and \<open>key in d\<close> on the items of a dict.\<close>

definition dict_get :: "(pystr \<times> json) list \<Rightarrow> pystr \<Rightarrow> json \<Rightarrow> json" where
  "dict_get d k dflt = (case map_of d k of Some v \<Rightarrow> v | None \<Rightarrow> dflt)"

definition dict_has :: "(pystr \<times> json) list \<Rightarrow> pystr \<Rightarrow> bool" where
  "dict_has d k = (map_of d k \<noteq> None)"

text \<open>Truth value testing (\<open>if x\<close>, \<open>x or y\<close>).\<close>

fun truthy :: "json \<Rightarrow> bool" where
  "truthy JNone = False"
| "truthy (JBool b) = b"
| "truthy (JInt i) = (i \<noteq> 0)"
| "truthy (JFloat r) = (r \<noteq> str ''0.0'' \<and> r \<noteq> str ''-0.0'')"
| "truthy (JStr s) = (s \<noteq> [])"
| "truthy (JList xs) = (xs \<noteq> [])"
| "truthy (JDict d) = (d \<noteq> [])"

subsection \<open>\<open>repr\<close> and \<open>str\<close>\<close>

text \<open>
  \<open>repr\<close> of a \<open>str\<close> escapes the quote, the backslash (code point \<open>0x5C\<close>) and the
  characters that are not printable. Which code points beyond ASCII are printable is a
  table of the interpreter's Unicode database; it is the parameter \<open>ucd\<close>.
\<close>

definition isprintable :: "(nat \<Rightarrow> bool) \<Rightarrow> nat \<Rightarrow> bool" where
  "isprintable ucd c = (if c < 0x80 then 0x20 \<le> c \<and> c < 0x7F else ucd c)"

definition repr_char :: "(nat \<Rightarrow> bool) \<Rightarrow> nat \<Rightarrow> nat \<Rightarrow> pystr" where
  "repr_char ucd q c =
     (if c = q \<or> c = 0x5C then [0x5C, c]
      else if c = 0x09 then 0x5C # str ''t''
      else if c = 0x0A then 0x5C # str ''n''
      else if c = 0x0D then 0x5C # str ''r''
      else if isprintable ucd c then [c]
      else if c < 0x100 then 0x5C # str ''x'' @ hex 2 c
      else if c < 0x10000 then 0x5C # str ''u'' @ hex 4 c
      else 0x5C # str ''U'' @ hex 8 c)"

definition repr_str :: "(nat \<Rightarrow> bool) \<Rightarrow> pystr \<Rightarrow> pystr" where
  "repr_str ucd s =
     (let q = (if 0x27 \<in> set s \<and> 0x22 \<notin> set s then 0x22 else 0x27)
      in [q] @ concat (map (repr_char ucd q) s) @ [q])"

text \<open>\<open>", ".join(xs)\<close>.\<close>

fun join_comma :: "pystr list \<Rightarrow> pystr" where
  "join_comma [] = []"
| "join_comma [x] = x"
| "join_comma (x # y # ys) = x @ str '', '' @ join_comma (y # ys)"

primrec repr :: "(nat \<Rightarrow> bool) \<Rightarrow> json \<Rightarrow> pystr" where
  "repr ucd JNone = str ''None''"
| "repr ucd (JBool b) = (if b then str ''True'' else str ''False'')"
| "repr ucd (JInt i) = str_int i"
| "repr ucd (JFloat r) = r"
| "repr ucd (JStr s) = repr_str ucd s"
| "repr ucd (JList xs) = str ''['' @ join_comma (map (repr ucd) xs) @ str '']''"
| "repr ucd (JDict d) =
     str ''{'' @ join_comma (map (\<lambda>kv. repr_str ucd (fst kv) @ str '': '' @ snd kv)
                              (map (map_prod id (repr ucd)) d)) @ str ''}''"

text \<open>What an f-string substitutes for \<open>{v}\<close>: \<open>str(v)\<close>.\<close>

definition py_str :: "(nat \<Rightarrow> bool) \<Rightarrow> json \<Rightarrow> pystr" where
  "py_str ucd v = (case v of JStr s \<Rightarrow> s | _ \<Rightarrow> repr ucd v)"

section \<open>The world outside the client\<close>

text \<open>
  \<open>resp.status_code\<close>, \<open>resp.text\<close> (the field \<open>resp_text\<close>) and what \<open>resp.json()\<close>
  does: it returns the parsed body or raises (\<open>Inl\<close>, with the class and text of the
  exception). The parser belongs to the HTTP library, so its result is carried with the
  response.
\<close>

record response =
  status_code :: int
  resp_text :: pystr
  json_result :: "(string \<times> pystr) + json"

text \<open>One part of a multipart upload: \<open>(field, (filename, content, media type))\<close>.\<close>

type_synonym part = "pystr \<times> (pystr \<times> bytes \<times> pystr)"

text \<open>
  The three calls the client makes: \<open>requests.get(url, timeout=t)\<close>,
  \<open>requests.post(url, files=parts, timeout=t)\<close> and \<open>requests.post(url, json=v, timeout=t)\<close>.
\<close>

datatype request =
    Get pystr nat
  | Post_files pystr "part list" nat
  | Post_json pystr json nat

text \<open>
  The world: the process environment, what the HTTP library does with each request
  (it raises an exception, \<open>Inl (cls, msg)\<close> with \<open>msg = str(e)\<close>, or returns a response),
  and the interpreter's table of printable code points. The exceptions of the library
  are subclasses of \<open>Exception\<close>, the ones \<^verbatim>\<open>except Exception\<close> catches.
\<close>

record world =
  environ :: "pystr \<rightharpoonup> pystr"
  http :: "request \<Rightarrow> (string \<times> pystr) + response"
  ucd :: "nat \<Rightarrow> bool"

text \<open>An uploaded file: a named in-memory buffer with a read cursor.\<close>

record uploaded_file =
  name :: pystr
  content :: bytes
  pos :: nat

definition seek :: "uploaded_file \<Rightarrow> nat \<Rightarrow> uploaded_file" where
  "seek f n = f\<lparr>pos := n\<rparr>"

text \<open>\<open>f.read()\<close>: everything from the cursor on; the cursor moves to the end.\<close>

definition read :: "uploaded_file \<Rightarrow> bytes \<times> uploaded_file" where
  "read f = (drop (pos f) (content f), f\<lparr>pos := max (pos f) (length (content f))\<rparr>)"

section \<open>Config\<close>

text \<open>\<open>os.getenv(key, default)\<close>.\<close>

definition os_getenv :: "(pystr \<rightharpoonup> pystr) \<Rightarrow> pystr \<Rightarrow> pystr \<Rightarrow> pystr" where
  "os_getenv env key dflt = (case env key of Some v \<Rightarrow> v | None \<Rightarrow> dflt)"

definition DEFAULT_BACKEND_URL :: pystr where
  "DEFAULT_BACKEND_URL = str ''https://ai-study-assistant-7oub.onrender.com''"

text \<open>The module-level constant, computed from the process environment at start.\<close>

definition BACKEND_URL :: "(pystr \<rightharpoonup> pystr) \<Rightarrow> pystr" where
  "BACKEND_URL env = rstrip_slash (os_getenv env (str ''BACKEND_URL'') DEFAULT_BACKEND_URL)"

section \<open>Helper functions\<close>

text \<open>
  Each function returns its outcome together with the list of the requests it issued, in
  order; \<open>build_index\<close> also returns the files, whose cursors it moves.
\<close>

text \<open>The requests of the three operations.\<close>

definition health_request :: "world \<Rightarrow> request" where
  "health_request w = Get (BACKEND_URL (environ w) @ str ''/health'') 10"

definition build_request :: "world \<Rightarrow> part list \<Rightarrow> request" where
  "build_request w parts = Post_files (BACKEND_URL (environ w) @ str ''/build_index'') parts 300"

definition ask_request :: "world \<Rightarrow> pystr \<Rightarrow> request" where
  "ask_request w question =
     Post_json (BACKEND_URL (environ w) @ str ''/ask'') (JDict [(str ''question'', JStr question)]) 120"

definition check_backend_health :: "world \<Rightarrow> bool outcome \<times> request list" where
  "check_backend_health w =
     (let req = health_request w
      in case http w req of
           Inl e \<Rightarrow> (Return False, [req])
         | Inr resp \<Rightarrow> (Return (status_code resp = 200), [req]))"

text \<open>The loop of \<open>build_index\<close> that fills \<open>files_payload\<close>.\<close>

fun files_payload :: "uploaded_file list \<Rightarrow> part list \<times> uploaded_file list" where
  "files_payload [] = ([], [])"
| "files_payload (f # fs) =
     (let f1 = seek f 0;
          (data, f2) = read f1;
          (parts, fs') = files_payload fs
      in ((str ''files'', (name f, data, str ''application/pdf'')) # parts, f2 # fs'))"

definition error_dict :: "pystr \<Rightarrow> json" where
  "error_dict msg = JDict [(str ''error'', JStr msg)]"

text \<open>
  In \<open>build_index\<close> and \<open>ask_question\<close>, \<open>data.get\<close> exists only when \<open>data\<close> is a
  dict; on any other value the attribute access raises \<open>AttributeError\<close>.
\<close>

text \<open>The final \<open>return resp.json()\<close>.\<close>

definition return_json :: "response \<Rightarrow> json outcome" where
  "return_json resp =
     (case json_result resp of Inr v \<Rightarrow> Return v | Inl (cls, msg) \<Rightarrow> Raise (Exn cls msg))"

definition build_index ::
  "world \<Rightarrow> uploaded_file list \<Rightarrow> json outcome \<times> request list \<times> uploaded_file list" where
  "build_index w files =
     (if files = [] then (Return (error_dict (str ''Please upload at least one PDF.'')), [], files)
      else
        let (parts, files') = files_payload files;
            req = build_request w parts
        in case http w req of
             Inl (cls, msg) \<Rightarrow>
               (Return (error_dict (str ''Failed to reach backend: '' @ msg)), [req], files')
           | Inr resp \<Rightarrow>
               if status_code resp \<noteq> 200 then
                 (let data = (case json_result resp of
                                Inr v \<Rightarrow> v
                              | Inl e \<Rightarrow> JDict [(str ''detail'', JStr (resp_text resp))])
                  in (case data of
                        JDict d \<Rightarrow>
                          (Return (error_dict
                             (str ''Backend error ('' @ str_int (status_code resp) @ str ''): ''
                              @ py_str (ucd w) (dict_get d (str ''detail'') data))),
                           [req], files')
                      | _ \<Rightarrow> (Raise AttributeError, [req], files')))
               else (return_json resp, [req], files'))"

definition ask_question :: "world \<Rightarrow> pystr \<Rightarrow> json outcome \<times> request list" where
  "ask_question w question =
     (if strip question = [] then (Return (error_dict (str ''Please enter a question.'')), [])
      else
        let req = ask_request w question
        in case http w req of
             Inl (cls, msg) \<Rightarrow>
               (Return (error_dict (str ''Failed to reach backend: '' @ msg)), [req])
           | Inr resp \<Rightarrow>
               if status_code resp \<noteq> 200 then
                 (let data = (case json_result resp of
                                Inr v \<Rightarrow> v
                              | Inl e \<Rightarrow> JDict [(str ''detail'', JStr (resp_text resp))])
                  in (case data of
                        JDict d \<Rightarrow>
                          (Return (error_dict
                             (str ''Backend error ('' @ str_int (status_code resp) @ str ''): ''
                              @ py_str (ucd w) (dict_get d (str ''detail'') data))),
                           [req])
                      | _ \<Rightarrow> (Raise AttributeError, [req])))
               else (return_json resp, [req]))"

text \<open>
  The value that the statements for a status other than 200 compute from a response.
  \<open>build_index\<close> and \<open>ask_question\<close> each have these statements in their own body;
  that both compute this value is proved below.
  \<^verbatim>\<open>
    try: data = resp.json()
    except Exception: data = {"detail": resp.text}
    return {"error": f"Backend error ({resp.status_code}): {data.get('detail', data)}"}
  \<close>
\<close>

definition backend_error :: "world \<Rightarrow> response \<Rightarrow> json outcome" where
  "backend_error w resp =
     (let data = (case json_result resp of
                    Inr v \<Rightarrow> v
                  | Inl e \<Rightarrow> JDict [(str ''detail'', JStr (resp_text resp))])
      in case data of
           JDict d \<Rightarrow>
             Return (error_dict (str ''Backend error ('' @ str_int (status_code resp) @ str ''): ''
                                 @ py_str (ucd w) (dict_get d (str ''detail'') data)))
         | _ \<Rightarrow> Raise AttributeError)"

section \<open>Streamlit UI\<close>

text \<open>The elements the script puts on the page.\<close>

datatype ui =
    St_spinner pystr
  | St_warning pystr
  | St_error json
  | St_success pystr
  | St_markdown pystr
  | St_write json
  | St_code json pystr
  | St_expander pystr bool "ui list"

text \<open>
  A piece of the script yields the elements it has put on the page and, when a statement
  raised, the exception that ended it.
\<close>

type_synonym rendering = "ui list \<times> exn option"

subsection \<open>The operations of the script on a result\<close>

fun startswith :: "pystr \<Rightarrow> pystr \<Rightarrow> bool" where
  "startswith s [] = True"
| "startswith [] (p # ps) = False"
| "startswith (c # cs) (p # ps) = (c = p \<and> startswith cs ps)"

fun has_substring :: "pystr \<Rightarrow> pystr \<Rightarrow> bool" where
  "has_substring [] p = (p = [])"
| "has_substring (c # cs) p = (startswith (c # cs) p \<or> has_substring cs p)"

text \<open>
  \<open>key in v\<close> for a \<open>str\<close> key: a key of a dict, an element of a list, a substring of a
  \<open>str\<close>; the other values are no containers.
\<close>

definition py_in :: "pystr \<Rightarrow> json \<Rightarrow> exn + bool" where
  "py_in k v =
     (case v of
        JDict d \<Rightarrow> Inr (dict_has d k)
      | JList xs \<Rightarrow> Inr (JStr k \<in> set xs)
      | JStr s \<Rightarrow> Inr (has_substring s k)
      | _ \<Rightarrow> Inl TypeError)"

text \<open>\<open>v[key]\<close> for a \<open>str\<close> key.\<close>

definition py_getitem :: "json \<Rightarrow> pystr \<Rightarrow> exn + json" where
  "py_getitem v k =
     (case v of
        JDict d \<Rightarrow> (case map_of d k of Some x \<Rightarrow> Inr x | None \<Rightarrow> Inl KeyError)
      | _ \<Rightarrow> Inl TypeError)"

text \<open>\<open>v.get(key, default)\<close>: only a dict has the method.\<close>

definition py_get :: "json \<Rightarrow> pystr \<Rightarrow> json \<Rightarrow> exn + json" where
  "py_get v k dflt =
     (case v of JDict d \<Rightarrow> Inr (dict_get d k dflt) | _ \<Rightarrow> Inl AttributeError)"

text \<open>What a \<open>for\<close> loop iterates over.\<close>

definition py_iter :: "json \<Rightarrow> exn + json list" where
  "py_iter v =
     (case v of
        JList xs \<Rightarrow> Inr xs
      | JDict d \<Rightarrow> Inr (map (\<lambda>kv. JStr (fst kv)) d)
      | JStr s \<Rightarrow> Inr (map (\<lambda>c. JStr [c]) s)
      | _ \<Rightarrow> Inl TypeError)"

subsection \<open>Step 1: the result of a build\<close>

text \<open>
  \<^verbatim>\<open>
    if "error" in result:
        st.error(result["error"])
    else:
        chunks = result.get("chunks", 0)
        st.success(f"Index built successfully ...\n\n**Total chunks indexed:** {chunks}")
  \<close>
\<close>

definition show_build_result :: "world \<Rightarrow> json \<Rightarrow> rendering" where
  "show_build_result w result =
     (case py_in (str ''error'') result of
        Inl e \<Rightarrow> ([], Some e)
      | Inr found \<Rightarrow>
          if found then
            (case py_getitem result (str ''error'') of
               Inl e \<Rightarrow> ([], Some e)
             | Inr msg \<Rightarrow> ([St_error msg], None))
          else
            (case py_get result (str ''chunks'') (JInt 0) of
               Inl e \<Rightarrow> ([], Some e)
             | Inr chunks \<Rightarrow>
                 ([St_success (str ''Index built successfully '' @ CHECK_MARK @ [0x0A, 0x0A]
                               @ str ''**Total chunks indexed:** '' @ py_str (ucd w) chunks)],
                  None)))"

text \<open>The handler of the build button.\<close>

definition build_clicked ::
  "world \<Rightarrow> uploaded_file list \<Rightarrow> rendering \<times> request list \<times> uploaded_file list" where
  "build_clicked w uploaded_files =
     (if uploaded_files = [] then
        (([St_warning (str ''Please upload at least one PDF before building the index.'')], None),
         [], uploaded_files)
      else
        let spinner = St_spinner (str ''Building index from your PDFs...'');
            (r, sent, files') = build_index w uploaded_files
        in case r of
             Raise e \<Rightarrow> (([spinner], Some e), sent, files')
           | Return result \<Rightarrow>
               let (elems, e) = show_build_result w result
               in ((spinner # elems, e), sent, files'))"

subsection \<open>Step 2: the result of a question\<close>

text \<open>The body of the loop over the retrieved chunks, for chunk number \<open>i\<close>.\<close>

definition show_chunk :: "world \<Rightarrow> nat \<Rightarrow> json \<Rightarrow> rendering" where
  "show_chunk w i ch =
     (case py_get ch (str ''metadata'') (JDict []) of
        Inl e \<Rightarrow> ([], Some e)
      | Inr m \<Rightarrow>
          (let meta = (if truthy m then m else JDict [])
           in (case py_get meta (str ''source_file'') (JStr (str ''unknown'')) of
                 Inl e \<Rightarrow> ([], Some e)
               | Inr src \<Rightarrow>
                   (case py_get meta (str ''chunk_index'') (JInt (- 1)) of
                      Inl e \<Rightarrow> ([], Some e)
                    | Inr idx \<Rightarrow>
                        (let line = St_markdown
                               (str ''**Chunk '' @ digits i @ str ''**  '' @ [0x0A]
                                @ str ''*Source:* `'' @ py_str (ucd w) src @ str ''` '' @ EM_DASH
                                @ str '' *chunk index:* `'' @ py_str (ucd w) idx @ str ''`'')
                         in (case py_get ch (str ''text'') (JStr []) of
                               Inl e \<Rightarrow> ([line], Some e)
                             | Inr t \<Rightarrow>
                                 ([line, St_write t, St_markdown (str ''---'')], None)))))))"

fun show_chunks :: "world \<Rightarrow> nat \<Rightarrow> json list \<Rightarrow> rendering" where
  "show_chunks w i [] = ([], None)"
| "show_chunks w i (ch # rest) =
     (case show_chunk w i ch of
        (elems, Some e) \<Rightarrow> (elems, Some e)
      | (elems, None) \<Rightarrow>
          let (elems', r) = show_chunks w (Suc i) rest in (elems @ elems', r))"

definition NO_ANSWER :: json where
  "NO_ANSWER = JStr (str ''No answer returned.'')"

text \<open>
  The display of the retrieved chunks:
  \<^verbatim>\<open>
    if chunks:
        with st.expander(...):
            for i, ch in enumerate(chunks, start=1): ...
  \<close>
\<close>

definition show_retrieved_chunks :: "world \<Rightarrow> json \<Rightarrow> rendering" where
  "show_retrieved_chunks w chunks =
     (let chunks_label = PAGE @ str '' Show Retrieved Chunks''
      in if truthy chunks then
           (case py_iter chunks of
              Inl e \<Rightarrow> ([St_expander chunks_label False []], Some e)
            | Inr items \<Rightarrow>
                (let (elems, r) = show_chunks w 1 items
                 in ([St_expander chunks_label False elems], r)))
         else ([], None))"

text \<open>The part after the answer: the context and the chunks of a result.\<close>

definition show_evidence :: "world \<Rightarrow> json \<Rightarrow> rendering" where
  "show_evidence w result =
     (let context_label = MAGNIFIER @ str '' Show retrieved context''
      in (case py_get result (str ''context'') (JStr []) of
            Inl e \<Rightarrow> ([St_expander context_label False []], Some e)
          | Inr context \<Rightarrow>
              (let shown = [St_expander context_label False [St_code context (str ''markdown'')]]
               in (case py_get result (str ''chunks'') (JList []) of
                     Inl e \<Rightarrow> (shown, Some e)
                   | Inr chunks \<Rightarrow>
                       (let (elems, r) = show_retrieved_chunks w chunks
                        in (shown @ elems, r))))))"

definition show_ask_result :: "world \<Rightarrow> json \<Rightarrow> rendering" where
  "show_ask_result w result =
     (case py_in (str ''error'') result of
        Inl e \<Rightarrow> ([], Some e)
      | Inr found \<Rightarrow>
          if found then
            (case py_getitem result (str ''error'') of
               Inl e \<Rightarrow> ([], Some e)
             | Inr msg \<Rightarrow> ([St_error msg], None))
          else
            (let heading = St_markdown (str ''### '' @ CHECK_MARK @ str '' Answer'')
             in (case py_get result (str ''answer'') NO_ANSWER of
                   Inl e \<Rightarrow> ([heading], Some e)
                 | Inr answer \<Rightarrow>
                     (let (elems, r) = show_evidence w result
                      in ([heading, St_write answer] @ elems, r)))))"

text \<open>The handler of the ask button.\<close>

definition ask_clicked :: "world \<Rightarrow> pystr \<Rightarrow> rendering \<times> request list" where
  "ask_clicked w question =
     (let spinner = St_spinner (str ''Thinking...'');
          (r, sent) = ask_question w question
      in case r of
           Raise e \<Rightarrow> (([spinner], Some e), sent)
         | Return result \<Rightarrow>
             let (elems, e) = show_ask_result w result
             in ((spinner # elems, e), sent))"

text \<open>A rendering that is the display of an error message and nothing else.\<close>

definition is_failure :: "rendering \<Rightarrow> bool" where
  "is_failure r = (case r of ([St_error msg], None) \<Rightarrow> True | _ \<Rightarrow> False)"

section \<open>Example inputs\<close>

text \<open>An uploaded document whose cursor is at its end after an earlier read.\<close>

definition doc_a :: uploaded_file where
  "doc_a = \<lparr>name = str ''a.pdf'', content = [0x25, 0x50, 0x44, 0x46], pos = 4\<rparr>"

text \<open>Environments: no override, an empty override, an override with trailing slashes.\<close>

definition env_unset :: "pystr \<rightharpoonup> pystr" where
  "env_unset = Map.empty"

definition env_empty_override :: "pystr \<rightharpoonup> pystr" where
  "env_empty_override = [str ''BACKEND_URL'' \<mapsto> []]"

definition env_local :: "pystr \<rightharpoonup> pystr" where
  "env_local = [str ''BACKEND_URL'' \<mapsto> str ''http://localhost:8000//'']"

text \<open>A backend that answers every request with the same response.\<close>

definition answering :: "response \<Rightarrow> world" where
  "answering resp = \<lparr>environ = env_unset, http = (\<lambda>req. Inr resp), ucd = (\<lambda>c. True)\<rparr>"

text \<open>A backend that cannot be reached.\<close>

definition w_refused :: world where
  "w_refused = \<lparr>environ = env_unset,
                 http = (\<lambda>req. Inl (''ConnectionError'', str ''Connection refused'')),
                 ucd = (\<lambda>c. True)\<rparr>"

text \<open>Status 500 with the body \<^verbatim>\<open>{"detail": "index corrupt"}\<close>.\<close>

definition resp_index_corrupt :: response where
  "resp_index_corrupt =
     \<lparr>status_code = 500,
      resp_text = str ''{'' @ [0x22] @ str ''detail'' @ [0x22] @ str '': '' @ [0x22]
                  @ str ''index corrupt'' @ [0x22] @ str ''}'',
      json_result = Inr (JDict [(str ''detail'', JStr (str ''index corrupt''))])\<rparr>"

text \<open>Status 500 with the body \<^verbatim>\<open>null\<close>, which is JSON and no object.\<close>

definition resp_null :: response where
  "resp_null = \<lparr>status_code = 500, resp_text = str ''null'', json_result = Inr JNone\<rparr>"

text \<open>Status 503 with the body \<^verbatim>\<open>[]\<close>, which is JSON and no object either.\<close>

definition resp_list :: response where
  "resp_list = \<lparr>status_code = 503, resp_text = str ''[]'', json_result = Inr (JList [])\<rparr>"

text \<open>Status 502 with a body that is no JSON.\<close>

definition resp_bad_gateway :: response where
  "resp_bad_gateway =
     \<lparr>status_code = 502, resp_text = str ''Bad Gateway'',
      json_result = Inl (''JSONDecodeError'', str ''Expecting value: line 1 column 1 (char 0)'')\<rparr>"

text \<open>Status 200 with the body \<^verbatim>\<open>{"chunks": 42}\<close>.\<close>

definition body_chunks_42 :: json where
  "body_chunks_42 = JDict [(str ''chunks'', JInt 42)]"

definition resp_chunks_42 :: response where
  "resp_chunks_42 =
     \<lparr>status_code = 200,
      resp_text = str ''{'' @ [0x22] @ str ''chunks'' @ [0x22] @ str '': 42}'',
      json_result = Inr body_chunks_42\<rparr>"

text \<open>
  Status 200 with an answer, its context and two chunks (the text of the body is left
  out; only its parse is read on this path).
\<close>

definition body_answer :: json where
  "body_answer =
     JDict [(str ''answer'', JStr (str ''X'')),
            (str ''context'', JStr (str ''Y'')),
            (str ''chunks'',
             JList [JDict [(str ''text'', JStr (str ''t'')),
                           (str ''metadata'', JDict [(str ''source_file'', JStr (str ''a.pdf'')),
                                                     (str ''chunk_index'', JInt 3)])],
                    JDict [(str ''text'', JStr (str ''u'')),
                           (str ''metadata'', JDict [(str ''source_file'', JStr (str ''a.pdf'')),
                                                     (str ''chunk_index'', JInt 1)])]])]"

definition resp_answer :: response where
  "resp_answer = \<lparr>status_code = 200, resp_text = [], json_result = Inr body_answer\<rparr>"

text \<open>Status 200 with the body \<^verbatim>\<open>{}\<close>.\<close>

definition resp_empty_object :: response where
  "resp_empty_object =
     \<lparr>status_code = 200, resp_text = str ''{}'', json_result = Inr (JDict [])\<rparr>"

text \<open>Status 200 with the body \<^verbatim>\<open>{"error": "no index"}\<close>.\<close>

definition body_error_200 :: json where
  "body_error_200 = JDict [(str ''error'', JStr (str ''no index''))]"

definition resp_error_200 :: response where
  "resp_error_200 =
     \<lparr>status_code = 200,
      resp_text = str ''{'' @ [0x22] @ str ''error'' @ [0x22] @ str '': '' @ [0x22]
                  @ str ''no index'' @ [0x22] @ str ''}'',
      json_result = Inr body_error_200\<rparr>"

text \<open>Status 500 with the body \<^verbatim>\<open>{"message": "boom"}\<close>: an object with no \<open>detail\<close>.\<close>

definition resp_message :: response where
  "resp_message =
     \<lparr>status_code = 500,
      resp_text = str ''{'' @ [0x22] @ str ''message'' @ [0x22] @ str '': '' @ [0x22]
                  @ str ''boom'' @ [0x22] @ str ''}'',
      json_result = Inr (JDict [(str ''message'', JStr (str ''boom''))])\<rparr>"

definition question_x :: pystr where
  "question_x = str ''What is X?''"

section \<open>Properties of the string operations\<close>

lemma strip_blank:
  assumes "\<forall>c\<in>set s. isspace c"
  shows "strip s = []"
  using assms by (auto simp: strip_def rstrip_where_def lstrip_where_def dest: set_dropWhileD)

lemma strip_eq_Nil_iff: "strip s = [] \<longleftrightarrow> (\<forall>c\<in>set s. isspace c)"
proof
  assume "strip s = []"
  then have "\<forall>c\<in>set (rev (dropWhile isspace s)). isspace c"
    by (simp add: strip_def rstrip_where_def lstrip_where_def)
  then have "dropWhile isspace s = []"
    using hd_dropWhile[of isspace s] by (cases "dropWhile isspace s") auto
  then show "\<forall>c\<in>set s. isspace c" by simp
qed (rule strip_blank)

lemma rstrip_where_split: "s = rstrip_where p s @ rev (takeWhile p (rev s))"
proof -
  have "rev (dropWhile p (rev s)) @ rev (takeWhile p (rev s))
          = rev (takeWhile p (rev s) @ dropWhile p (rev s))"
    by (simp only: rev_append)
  also have "\<dots> = rev (rev s)" by (simp only: takeWhile_dropWhile_id)
  finally show ?thesis by (simp add: rstrip_where_def)
qed

lemma rstrip_where_last: "rstrip_where p s = [] \<or> \<not> p (last (rstrip_where p s))"
proof (cases "dropWhile p (rev s)")
  case Nil
  then show ?thesis by (simp add: rstrip_where_def)
next
  case (Cons x xs)
  then have "\<not> p x" using hd_dropWhile[of p "rev s"] by auto
  with Cons show ?thesis by (simp add: rstrip_where_def)
qed

lemma rstrip_slash_split: "\<exists>n. s = rstrip_slash s @ replicate n 0x2F"
proof -
  let ?t = "rev (takeWhile (\<lambda>c. c = 0x2F) (rev s))"
  have "\<forall>c\<in>set ?t. c = 0x2F" by (auto dest: set_takeWhileD)
  then have "replicate (length ?t) 0x2F = ?t" by (rule replicate_length_same)
  then show ?thesis using rstrip_where_split[of s "\<lambda>c. c = 0x2F"]
    unfolding rstrip_slash_def by metis
qed

lemma rstrip_slash_default: "rstrip_slash DEFAULT_BACKEND_URL = DEFAULT_BACKEND_URL"
  by (simp add: rstrip_slash_def rstrip_where_def DEFAULT_BACKEND_URL_def)

section \<open>Properties of the helper functions\<close>

lemma strip_question_x: "strip question_x \<noteq> []"
  by (simp add: question_x_def strip_def rstrip_where_def lstrip_where_def isspace_def)

lemma str_int_500: "str_int 500 = str ''500''"
  by (simp add: str_int_def digits.simps)

lemma files_payload_nonempty: "files \<noteq> [] \<Longrightarrow> fst (files_payload files) \<noteq> []"
  by (cases files) (simp_all add: split_def Let_def)

text \<open>Every file is sent whole, whatever its cursor was, and is left read to its end.\<close>

lemma files_payload_whole:
  "fst (files_payload files) =
     map (\<lambda>f. (str ''files'', (name f, content f, str ''application/pdf''))) files
   \<and> snd (files_payload files) = map (\<lambda>f. f\<lparr>pos := length (content f)\<rparr>) files"
  by (induction files) (simp_all add: split_def Let_def seek_def read_def)

text \<open>What the handling of a status other than 200 returns, by the shape of the body.\<close>

lemma backend_error_dict:
  "json_result resp = Inr (JDict d) \<Longrightarrow>
   backend_error w resp =
     Return (error_dict (str ''Backend error ('' @ str_int (status_code resp) @ str ''): ''
                         @ py_str (ucd w) (dict_get d (str ''detail'') (JDict d))))"
  by (simp add: backend_error_def)

lemma backend_error_raw_text:
  "json_result resp = Inl e \<Longrightarrow>
   backend_error w resp =
     Return (error_dict (str ''Backend error ('' @ str_int (status_code resp) @ str ''): ''
                         @ resp_text resp))"
  by (simp add: backend_error_def dict_get_def py_str_def)

text \<open>The two operations once the backend has answered, or has not.\<close>

lemma build_index_response:
  "files \<noteq> [] \<Longrightarrow> http w (build_request w (fst (files_payload files))) = Inr resp \<Longrightarrow>
   fst (build_index w files) =
     (if status_code resp \<noteq> 200 then backend_error w resp else return_json resp)"
  by (simp add: build_index_def backend_error_def split_def Let_def
      split: sum.split json.split)

lemma ask_question_response:
  "strip question \<noteq> [] \<Longrightarrow> http w (ask_request w question) = Inr resp \<Longrightarrow>
   fst (ask_question w question) =
     (if status_code resp \<noteq> 200 then backend_error w resp else return_json resp)"
  by (simp add: ask_question_def backend_error_def Let_def split: sum.split json.split)

lemma build_index_fault:
  "files \<noteq> [] \<Longrightarrow> http w (build_request w (fst (files_payload files))) = Inl (cls, msg) \<Longrightarrow>
   fst (build_index w files) = Return (error_dict (str ''Failed to reach backend: '' @ msg))"
  by (simp add: build_index_def split_def Let_def)

lemma ask_question_fault:
  "strip question \<noteq> [] \<Longrightarrow> http w (ask_request w question) = Inl (cls, msg) \<Longrightarrow>
   fst (ask_question w question) = Return (error_dict (str ''Failed to reach backend: '' @ msg))"
  by (simp add: ask_question_def Let_def)

text \<open>
  The example of the specification: status 500 and the body
  \<^verbatim>\<open>{"detail": "index corrupt"}\<close> give \<^verbatim>\<open>Backend error (500): index corrupt\<close>.
\<close>

lemma build_index_500_example:
  "fst (build_index (answering resp_index_corrupt) [doc_a]) =
     Return (JDict [(str ''error'', JStr (str ''Backend error (500): index corrupt''))])"
  by (simp add: build_index_response [where resp = resp_index_corrupt] answering_def
      backend_error_def resp_index_corrupt_def error_dict_def dict_get_def py_str_def str_int_500)

text \<open>
  An object without \<open>detail\<close> is shown whole, as Python prints a dict:
  \<^verbatim>\<open>Backend error (500): {'message': 'boom'}\<close>.
\<close>

lemma build_index_500_no_detail:
  "fst (build_index (answering resp_message) [doc_a]) =
     Return (JDict [(str ''error'',
                     JStr (str ''Backend error (500): {'' @ [0x27] @ str ''message'' @ [0x27]
                           @ str '': '' @ [0x27] @ str ''boom'' @ [0x27] @ str ''}''))])"
  by (simp add: build_index_response [where resp = resp_message] answering_def
      backend_error_def resp_message_def error_dict_def dict_get_def py_str_def str_int_500
      repr_str_def repr_char_def isprintable_def)

text \<open>
  Claim C1. For every response with a status other than success, \<open>build_index\<close> and
  \<open>ask_question\<close> should return the error result \<^verbatim>\<open>Backend error (<status>): <detail>\<close>.
  They do so when the body is a JSON object or is no JSON (\<open>backend_error_dict\<close>,
  \<open>backend_error_raw_text\<close>, \<open>build_index_500_example\<close>). When the body is JSON and not
  an object, here \<^verbatim>\<open>null\<close> with status 500, \<open>data.get\<close> raises \<open>AttributeError\<close> and
  both operations end with that exception instead of an error result.
\<close>

theorem backend_error_null_body:
  "fst (build_index (answering resp_null) [doc_a]) = Raise AttributeError
   \<and> fst (ask_question (answering resp_null) question_x) = Raise AttributeError"
  by (simp add: build_index_response [where resp = resp_null]
      ask_question_response [where resp = resp_null] strip_question_x
      answering_def backend_error_def resp_null_def)

text \<open>
  What the two operations have in common. When the HTTP library does the same with the
  two requests (raises the same exception, or returns the same response with a status
  other than 200), the two operations have the same outcome.
\<close>

lemma outcomes_mirrored:
  assumes "files \<noteq> []" and "strip question \<noteq> []"
    and "http w (build_request w (fst (files_payload files))) = http w (ask_request w question)"
    and "\<forall>resp. http w (ask_request w question) = Inr resp \<longrightarrow> status_code resp \<noteq> 200"
  shows "fst (build_index w files) = fst (ask_question w question)"
proof (cases "http w (ask_request w question)")
  case (Inl e)
  obtain cls msg where e: "e = (cls, msg)" by (cases e)
  from Inl e assms show ?thesis
    by (simp add: build_index_fault ask_question_fault)
next
  case (Inr resp)
  with assms show ?thesis
    by (simp add: build_index_response ask_question_response)
qed

text \<open>
  When moreover the body of such a response is a JSON object or is no JSON, the common
  outcome is an error result, with one and the same message.
\<close>

lemma error_results_mirrored:
  assumes "files \<noteq> []" and "strip question \<noteq> []"
    and same: "http w (build_request w (fst (files_payload files))) = http w (ask_request w question)"
    and not_200: "\<forall>resp. http w (ask_request w question) = Inr resp \<longrightarrow> status_code resp \<noteq> 200"
    and object: "\<forall>resp v. http w (ask_request w question) = Inr resp \<and> json_result resp = Inr v
                   \<longrightarrow> (\<exists>d. v = JDict d)"
  shows "\<exists>msg. fst (build_index w files) = Return (error_dict msg)
             \<and> fst (ask_question w question) = Return (error_dict msg)"
proof -
  have eq: "fst (build_index w files) = fst (ask_question w question)"
    using assms(1,2) same not_200 by (rule outcomes_mirrored)
  have "\<exists>msg. fst (ask_question w question) = Return (error_dict msg)"
  proof (cases "http w (ask_request w question)")
    case (Inl e)
    obtain cls msg where "e = (cls, msg)" by (cases e)
    with Inl have "http w (ask_request w question) = Inl (cls, msg)" by simp
    from ask_question_fault [OF assms(2) this] show ?thesis by blast
  next
    case (Inr resp)
    with not_200 have "status_code resp \<noteq> 200" by simp
    with ask_question_response [OF assms(2) Inr]
    have handled: "fst (ask_question w question) = backend_error w resp" by simp
    show ?thesis
    proof (cases "json_result resp")
      case (Inl e)
      from handled backend_error_raw_text [OF Inl, of w] show ?thesis by auto
    next
      case body: (Inr v)
      with Inr object obtain d where "v = JDict d" by blast
      with body have "json_result resp = Inr (JDict d)" by simp
      from handled backend_error_dict [OF this, of w] show ?thesis by auto
    qed
  qed
  with eq show ?thesis by simp
qed

text \<open>With a 502 whose body is no JSON, both return \<^verbatim>\<open>Backend error (502): Bad Gateway\<close>.\<close>

lemma error_results_mirrored_502:
  "fst (build_index (answering resp_bad_gateway) [doc_a]) =
     Return (JDict [(str ''error'', JStr (str ''Backend error (502): Bad Gateway''))])
   \<and> fst (ask_question (answering resp_bad_gateway) question_x) =
       Return (JDict [(str ''error'', JStr (str ''Backend error (502): Bad Gateway''))])"
proof -
  have "fst (build_index (answering resp_bad_gateway) [doc_a]) =
     fst (ask_question (answering resp_bad_gateway) question_x)"
    by (rule outcomes_mirrored)
       (simp_all add: strip_question_x answering_def resp_bad_gateway_def)
  moreover have "fst (ask_question (answering resp_bad_gateway) question_x) =
       Return (JDict [(str ''error'', JStr (str ''Backend error (502): Bad Gateway''))])"
    by (simp add: ask_question_response [where resp = resp_bad_gateway] strip_question_x
        answering_def resp_bad_gateway_def error_dict_def str_int_def digits.simps
        backend_error_raw_text
          [where e = "(''JSONDecodeError'', str ''Expecting value: line 1 column 1 (char 0)'')"])
  ultimately show ?thesis by simp
qed

text \<open>
  Claim C2. Given the same status and the same body, \<open>build_index\<close> and \<open>ask_question\<close>
  should return the same \<^verbatim>\<open>Backend error (<status>): <detail>\<close> message. They do for
  a transport fault and for a body that is a JSON object or no JSON
  (\<open>error_results_mirrored\<close>). For a body that is JSON and not an object they return no
  message at all: here both requests are answered with status 503 and the body \<^verbatim>\<open>[]\<close>,
  and both operations end with \<open>AttributeError\<close>, raised by \<open>data.get\<close>.
\<close>

theorem mirrored_handling_list_body:
  "http (answering resp_list)
     (build_request (answering resp_list) (fst (files_payload [doc_a]))) = Inr resp_list
   \<and> http (answering resp_list) (ask_request (answering resp_list) question_x) = Inr resp_list
   \<and> status_code resp_list = 503
   \<and> json_result resp_list = Inr (JList [])
   \<and> fst (build_index (answering resp_list) [doc_a]) = Raise AttributeError
   \<and> fst (ask_question (answering resp_list) question_x) = Raise AttributeError"
  by (simp add: build_index_response [where resp = resp_list]
      ask_question_response [where resp = resp_list] strip_question_x
      answering_def backend_error_def resp_list_def)

text \<open>
  Claim C3. \<open>check_backend_health\<close> never raises: it returns a boolean, which is true
  exactly when the HTTP library returned a response and its status is 200. So it is false
  for every exception of the library (connection refused, timeout, malformed response)
  and for every other status.
\<close>

theorem check_backend_health_bool:
  "fst (check_backend_health w) =
     Return (\<exists>resp. http w (health_request w) = Inr resp \<and> status_code resp = 200)"
  by (cases "http w (health_request w)") (simp_all add: check_backend_health_def)

text \<open>A refused connection and a 502 give false, a 200 gives true.\<close>

theorem check_backend_health_bool_witness:
  "fst (check_backend_health w_refused) = Return False
   \<and> fst (check_backend_health (answering resp_bad_gateway)) = Return False
   \<and> fst (check_backend_health (answering resp_chunks_42)) = Return True"
  using check_backend_health_bool [of w_refused]
    check_backend_health_bool [of "answering resp_bad_gateway"]
    check_backend_health_bool [of "answering resp_chunks_42"]
  by (simp add: w_refused_def answering_def resp_bad_gateway_def resp_chunks_42_def)

text \<open>
  Claim C4. For the empty list of documents \<open>build_index\<close> returns an error result and
  issues no request.
\<close>

theorem build_index_empty:
  "build_index w [] = (Return (error_dict (str ''Please upload at least one PDF.'')), [], [])"
  by (simp add: build_index_def)

theorem build_index_empty_witness:
  "build_index w_refused [] =
     (Return (JDict [(str ''error'', JStr (str ''Please upload at least one PDF.''))]), [], [])"
  using build_index_empty [of w_refused] by (simp add: error_dict_def)

text \<open>
  Claim C5. For a question that is empty or consists of whitespace only,
  \<open>ask_question\<close> returns an error result and issues no request.
\<close>

theorem ask_question_blank:
  "\<forall>c\<in>set question. isspace c \<Longrightarrow>
   ask_question w question = (Return (error_dict (str ''Please enter a question.'')), [])"
  by (simp add: ask_question_def strip_blank)

text \<open>A space, a tab, a line feed and a no-break space.\<close>

theorem ask_question_blank_witness:
  "isspace 0x20 \<and> isspace 0x09 \<and> isspace 0x0A \<and> isspace 0xA0
   \<and> ask_question w_refused [0x20, 0x09, 0x0A, 0xA0] =
       (Return (JDict [(str ''error'', JStr (str ''Please enter a question.''))]), [])"
proof -
  have h: "\<forall>c\<in>set [0x20, 0x09, 0x0A, 0xA0]. isspace c" by (simp add: isspace_def)
  show ?thesis using h ask_question_blank [OF h, of w_refused] by (simp add: error_dict_def)
qed

text \<open>
  Claim C6, as amended. \<open>BACKEND_URL\<close> is the value of the environment variable
  whenever the variable is set, also when it is set to the empty string, and the
  default when it is not set; in both cases without its trailing slashes. The
  resolution is total, the default has no trailing slash, and the result never ends with
  a slash.
\<close>

theorem BACKEND_URL_resolution:
  "BACKEND_URL env =
     rstrip_slash (case env (str ''BACKEND_URL'') of Some v \<Rightarrow> v | None \<Rightarrow> DEFAULT_BACKEND_URL)
   \<and> (env (str ''BACKEND_URL'') = None \<longrightarrow> BACKEND_URL env = DEFAULT_BACKEND_URL)
   \<and> (\<forall>v. env (str ''BACKEND_URL'') = Some v \<longrightarrow> (\<exists>n. v = BACKEND_URL env @ replicate n 0x2F))
   \<and> (BACKEND_URL env = [] \<or> last (BACKEND_URL env) \<noteq> 0x2F)"
proof (intro conjI allI impI)
  show "BACKEND_URL env =
     rstrip_slash (case env (str ''BACKEND_URL'') of Some v \<Rightarrow> v | None \<Rightarrow> DEFAULT_BACKEND_URL)"
    by (simp add: BACKEND_URL_def os_getenv_def)
next
  assume "env (str ''BACKEND_URL'') = None"
  then show "BACKEND_URL env = DEFAULT_BACKEND_URL"
    by (simp add: BACKEND_URL_def os_getenv_def rstrip_slash_default)
next
  fix v assume "env (str ''BACKEND_URL'') = Some v"
  then have "BACKEND_URL env = rstrip_slash v" by (simp add: BACKEND_URL_def os_getenv_def)
  then show "\<exists>n. v = BACKEND_URL env @ replicate n 0x2F"
    using rstrip_slash_split[of v] by simp
next
  show "BACKEND_URL env = [] \<or> last (BACKEND_URL env) \<noteq> 0x2F"
    unfolding BACKEND_URL_def rstrip_slash_def by (rule rstrip_where_last)
qed

theorem BACKEND_URL_resolution_witness:
  "BACKEND_URL env_local = str ''http://localhost:8000''
   \<and> BACKEND_URL env_unset = str ''https://ai-study-assistant-7oub.onrender.com''"
  using BACKEND_URL_resolution [of env_local] BACKEND_URL_resolution [of env_unset]
  by (simp add: env_local_def env_unset_def DEFAULT_BACKEND_URL_def rstrip_slash_def
      rstrip_where_def)

text \<open>
  The claim as first stated fails where the variable is set and empty: the result is
  the empty string, not the default.
\<close>

theorem empty_override_counterexample:
  "env_empty_override (str ''BACKEND_URL'') = Some []
   \<and> BACKEND_URL env_empty_override = []
   \<and> BACKEND_URL env_empty_override \<noteq> DEFAULT_BACKEND_URL"
  by (simp add: BACKEND_URL_def os_getenv_def env_empty_override_def rstrip_slash_def
      rstrip_where_def DEFAULT_BACKEND_URL_def)

text \<open>
  Claim C8. When the HTTP library raises (DNS failure, connection failure, timeout),
  \<open>build_index\<close> and \<open>ask_question\<close> return the error result
  \<^verbatim>\<open>Failed to reach backend: <cause>\<close>, with the text of the exception as cause; the
  exception does not leave the operation.
\<close>

theorem transport_fault_message:
  "(files \<noteq> [] \<and> http w (build_request w (fst (files_payload files))) = Inl (cls, msg)
      \<longrightarrow> fst (build_index w files) =
            Return (error_dict (str ''Failed to reach backend: '' @ msg)))
   \<and> (strip question \<noteq> [] \<and> http w (ask_request w question) = Inl (cls, msg)
      \<longrightarrow> fst (ask_question w question) =
            Return (error_dict (str ''Failed to reach backend: '' @ msg)))"
  by (simp add: build_index_fault ask_question_fault)

theorem transport_fault_message_witness:
  "fst (build_index w_refused [doc_a]) =
     Return (JDict [(str ''error'', JStr (str ''Failed to reach backend: Connection refused''))])
   \<and> fst (ask_question w_refused question_x) =
     Return (JDict [(str ''error'', JStr (str ''Failed to reach backend: Connection refused''))])"
  using transport_fault_message [of "[doc_a]" w_refused "''ConnectionError''"
      "str ''Connection refused''" question_x]
  by (simp add: strip_question_x w_refused_def error_dict_def)

text \<open>
  Claim C9. On a response with status 200, \<open>build_index\<close> (for a list of documents
  that is not empty) and \<open>ask_question\<close> return the parsed body as it is; so the chunks
  of an answer keep their order.
\<close>

theorem success_returns_body:
  "status_code resp = 200 \<and> json_result resp = Inr body \<longrightarrow>
   (files \<noteq> [] \<and> http w (build_request w (fst (files_payload files))) = Inr resp
      \<longrightarrow> fst (build_index w files) = Return body)
   \<and> (strip question \<noteq> [] \<and> http w (ask_request w question) = Inr resp
      \<longrightarrow> fst (ask_question w question) = Return body)"
  by (simp add: build_index_response ask_question_response return_json_def)

text \<open>
  A build answered with \<^verbatim>\<open>{"chunks": 42}\<close>, and a question answered with an answer, its
  context and two chunks, which come back in the order of the body.
\<close>

theorem success_returns_body_witness:
  "fst (build_index (answering resp_chunks_42) [doc_a]) = Return (JDict [(str ''chunks'', JInt 42)])
   \<and> fst (ask_question (answering resp_answer) question_x) = Return body_answer"
  using success_returns_body [of resp_chunks_42 body_chunks_42 "[doc_a]"
      "answering resp_chunks_42" question_x]
    success_returns_body [of resp_answer body_answer "[doc_a]" "answering resp_answer" question_x]
  by (simp add: strip_question_x answering_def resp_chunks_42_def resp_answer_def
      body_chunks_42_def)

section \<open>Properties of the rendering\<close>

lemma show_build_result_error:
  "map_of d (str ''error'') = Some msg \<Longrightarrow> show_build_result w (JDict d) = ([St_error msg], None)"
  by (simp add: show_build_result_def py_in_def py_getitem_def dict_has_def)

lemma show_ask_result_error:
  "map_of d (str ''error'') = Some msg \<Longrightarrow> show_ask_result w (JDict d) = ([St_error msg], None)"
  by (simp add: show_ask_result_def py_in_def py_getitem_def dict_has_def)

lemma show_build_result_success:
  "\<not> dict_has d (str ''error'') \<Longrightarrow>
   show_build_result w (JDict d) =
     ([St_success (str ''Index built successfully '' @ CHECK_MARK @ [0x0A, 0x0A]
                   @ str ''**Total chunks indexed:** ''
                   @ py_str (ucd w) (dict_get d (str ''chunks'') (JInt 0)))], None)"
  by (simp add: show_build_result_def py_in_def py_get_def)

lemma show_ask_result_success:
  "\<not> dict_has d (str ''error'') \<Longrightarrow>
   show_ask_result w (JDict d) =
     ([St_markdown (str ''### '' @ CHECK_MARK @ str '' Answer''),
       St_write (dict_get d (str ''answer'') NO_ANSWER)]
      @ fst (show_evidence w (JDict d)), snd (show_evidence w (JDict d)))"
  by (simp add: show_ask_result_def py_in_def py_get_def split_def Let_def)

lemma show_evidence_dict:
  "show_evidence w (JDict d) =
     ([St_expander (MAGNIFIER @ str '' Show retrieved context'') False
         [St_code (dict_get d (str ''context'') (JStr [])) (str ''markdown'')]]
      @ fst (show_retrieved_chunks w (dict_get d (str ''chunks'') (JList []))),
      snd (show_retrieved_chunks w (dict_get d (str ''chunks'') (JList []))))"
  by (simp add: show_evidence_def py_get_def split_def Let_def)

lemma show_retrieved_chunks_empty: "show_retrieved_chunks w (JList []) = ([], None)"
  by (simp add: show_retrieved_chunks_def)

lemma ask_clicked_returned:
  "fst (ask_question w question) = Return result \<Longrightarrow>
   fst (ask_clicked w question) =
     (St_spinner (str ''Thinking...'') # fst (show_ask_result w result),
      snd (show_ask_result w result))"
  by (simp add: ask_clicked_def split_def Let_def)

text \<open>
  Claim C7, as amended. For a response with status 200 whose body is a JSON object
  without \<open>error\<close>, \<open>ask_question\<close> returns the body with nothing filled in; the defaults
  are those of the rendering. The page shows the heading, the answer, the context and
  then the chunks: a missing \<open>answer\<close> is shown as the text \<^verbatim>\<open>No answer returned.\<close>, a
  missing \<open>context\<close> as the empty string, and missing \<open>chunks\<close> are the empty list, for
  which no chunk is shown and nothing is raised. The rendering ends with an exception
  only if the display of the chunks that are present does.
\<close>

theorem missing_fields_defaults:
  assumes "strip question \<noteq> []"
    and "http w (ask_request w question) = Inr resp"
    and "status_code resp = 200"
    and "json_result resp = Inr (JDict d)"
    and "\<not> dict_has d (str ''error'')"
  shows "fst (ask_question w question) = Return (JDict d)
    \<and> show_ask_result w (JDict d) =
         ([St_markdown (str ''### '' @ CHECK_MARK @ str '' Answer''),
           St_write (case map_of d (str ''answer'') of
                       None \<Rightarrow> JStr (str ''No answer returned.'') | Some a \<Rightarrow> a),
           St_expander (MAGNIFIER @ str '' Show retrieved context'') False
             [St_code (case map_of d (str ''context'') of None \<Rightarrow> JStr [] | Some c \<Rightarrow> c)
                      (str ''markdown'')]]
          @ fst (show_retrieved_chunks w
                   (case map_of d (str ''chunks'') of None \<Rightarrow> JList [] | Some c \<Rightarrow> c)),
          snd (show_retrieved_chunks w
                   (case map_of d (str ''chunks'') of None \<Rightarrow> JList [] | Some c \<Rightarrow> c)))
    \<and> show_retrieved_chunks w (JList []) = ([], None)
    \<and> (map_of d (str ''chunks'') = None \<longrightarrow>
          snd (show_ask_result w (JDict d)) = None
          \<and> length (fst (show_ask_result w (JDict d))) = 3)
    \<and> fst (ask_clicked w question) =
         (St_spinner (str ''Thinking...'') # fst (show_ask_result w (JDict d)),
          snd (show_ask_result w (JDict d)))"
proof -
  have returned: "fst (ask_question w question) = Return (JDict d)"
    using assms(1-4) by (simp add: ask_question_response return_json_def)
  have shown: "show_ask_result w (JDict d) =
         ([St_markdown (str ''### '' @ CHECK_MARK @ str '' Answer''),
           St_write (case map_of d (str ''answer'') of
                       None \<Rightarrow> JStr (str ''No answer returned.'') | Some a \<Rightarrow> a),
           St_expander (MAGNIFIER @ str '' Show retrieved context'') False
             [St_code (case map_of d (str ''context'') of None \<Rightarrow> JStr [] | Some c \<Rightarrow> c)
                      (str ''markdown'')]]
          @ fst (show_retrieved_chunks w
                   (case map_of d (str ''chunks'') of None \<Rightarrow> JList [] | Some c \<Rightarrow> c)),
          snd (show_retrieved_chunks w
                   (case map_of d (str ''chunks'') of None \<Rightarrow> JList [] | Some c \<Rightarrow> c)))"
    by (simp add: show_ask_result_success [OF assms(5)] show_evidence_dict dict_get_def
        NO_ANSWER_def split: option.split)
  have quiet: "map_of d (str ''chunks'') = None \<longrightarrow>
          snd (show_ask_result w (JDict d)) = None
          \<and> length (fst (show_ask_result w (JDict d))) = 3"
    by (simp add: shown show_retrieved_chunks_empty)
  from returned shown quiet show ?thesis
    by (simp only: ask_clicked_returned [OF returned] show_retrieved_chunks_empty simp_thms)
qed

text \<open>
  The body \<^verbatim>\<open>{}\<close>, where all three fields are missing: the result is the empty dict and
  the page shows the default answer and the empty context, no chunk, and no exception.
\<close>

theorem missing_fields_defaults_witness:
  "fst (ask_question (answering resp_empty_object) question_x) = Return (JDict [])
   \<and> show_ask_result (answering resp_empty_object) (JDict []) =
       ([St_markdown (str ''### '' @ CHECK_MARK @ str '' Answer''),
         St_write (JStr (str ''No answer returned.'')),
         St_expander (MAGNIFIER @ str '' Show retrieved context'') False
           [St_code (JStr []) (str ''markdown'')]], None)
   \<and> fst (ask_clicked (answering resp_empty_object) question_x) =
       ([St_spinner (str ''Thinking...''),
         St_markdown (str ''### '' @ CHECK_MARK @ str '' Answer''),
         St_write (JStr (str ''No answer returned.'')),
         St_expander (MAGNIFIER @ str '' Show retrieved context'') False
           [St_code (JStr []) (str ''markdown'')]], None)"
proof -
  have "http (answering resp_empty_object)
          (ask_request (answering resp_empty_object) question_x) = Inr resp_empty_object"
    by (simp add: answering_def)
  moreover have "status_code resp_empty_object = 200"
    and "json_result resp_empty_object = Inr (JDict [])"
    by (simp_all add: resp_empty_object_def)
  moreover have "\<not> dict_has [] (str ''error'')" by (simp add: dict_has_def)
  ultimately show ?thesis
    using missing_fields_defaults [OF strip_question_x, of "answering resp_empty_object"
        resp_empty_object "[]"]
    by simp
qed

text \<open>
  The claim as first stated fails for the answer: with the body \<^verbatim>\<open>{}\<close> the result is
  the empty dict, and what is shown as the answer is not the empty string.
\<close>

theorem missing_answer_counterexample:
  "fst (ask_question (answering resp_empty_object) question_x) = Return (JDict [])
   \<and> fst (show_ask_result (answering resp_empty_object) (JDict [])) ! 1
       = St_write (JStr (str ''No answer returned.''))
   \<and> JStr (str ''No answer returned.'') \<noteq> JStr []"
  by (simp add: ask_question_response [where resp = resp_empty_object] strip_question_x
      answering_def resp_empty_object_def return_json_def show_ask_result_def py_in_def
      dict_has_def py_get_def dict_get_def NO_ANSWER_def split_def Let_def)

text \<open>
  Claim C10. A result that is a dict is rendered as a failure, the error message and
  nothing else, exactly when it has the key \<open>error\<close>; what is shown is the value under
  that key. This holds whatever produced the dict, so also for the body of a response
  with status 200.
\<close>

theorem failure_iff_error_key:
  "(is_failure (show_build_result w (JDict d)) \<longleftrightarrow> dict_has d (str ''error''))
   \<and> (is_failure (show_ask_result w (JDict d)) \<longleftrightarrow> dict_has d (str ''error''))
   \<and> (\<forall>msg. map_of d (str ''error'') = Some msg \<longrightarrow>
         show_build_result w (JDict d) = ([St_error msg], None)
         \<and> show_ask_result w (JDict d) = ([St_error msg], None))"
proof (cases "map_of d (str ''error'')")
  case None
  then have no: "\<not> dict_has d (str ''error'')" by (simp add: dict_has_def)
  have "\<not> is_failure (show_build_result w (JDict d))"
    by (simp add: show_build_result_success [OF no] is_failure_def)
  moreover have "\<not> is_failure (show_ask_result w (JDict d))"
    by (simp add: show_ask_result_success [OF no] is_failure_def)
  ultimately show ?thesis using None no by simp
next
  case (Some msg)
  then show ?thesis
    by (simp add: show_build_result_error show_ask_result_error is_failure_def dict_has_def)
qed

text \<open>
  Status 200 with the body \<^verbatim>\<open>{"error": "no index"}\<close>: the question is answered with
  that dict and the page shows \<^verbatim>\<open>no index\<close> as an error. The body \<^verbatim>\<open>{"chunks": 42}\<close>
  is no failure.
\<close>

theorem failure_iff_error_key_witness:
  "fst (ask_question (answering resp_error_200) question_x) = Return body_error_200
   \<and> is_failure (show_ask_result (answering resp_error_200) body_error_200)
   \<and> fst (ask_clicked (answering resp_error_200) question_x)
        = ([St_spinner (str ''Thinking...''), St_error (JStr (str ''no index''))], None)
   \<and> \<not> is_failure (show_build_result (answering resp_chunks_42) body_chunks_42)"
proof -
  have ask: "fst (ask_question (answering resp_error_200) question_x) = Return body_error_200"
    by (simp add: ask_question_response [where resp = resp_error_200] strip_question_x
        answering_def resp_error_200_def return_json_def)
  have shown: "show_ask_result (answering resp_error_200) body_error_200
        = ([St_error (JStr (str ''no index''))], None)"
    and "is_failure (show_ask_result (answering resp_error_200) body_error_200)"
    and "\<not> is_failure (show_build_result (answering resp_chunks_42) body_chunks_42)"
    using failure_iff_error_key [of "answering resp_error_200"
        "[(str ''error'', JStr (str ''no index''))]"]
      failure_iff_error_key [of "answering resp_chunks_42" "[(str ''chunks'', JInt 42)]"]
    by (simp_all add: body_error_200_def body_chunks_42_def dict_has_def is_failure_def)
  moreover from ask shown
  have "fst (ask_clicked (answering resp_error_200) question_x)
        = ([St_spinner (str ''Thinking...''), St_error (JStr (str ''no index''))], None)"
    by (simp add: ask_clicked_def split_def Let_def)
  ultimately show ?thesis using ask by simp
qed

end
